theory Spec2Isabelle
  imports Main
begin

section \<open>The weighting-functions processor (src/ogc/weighting_functions.py)\<close>

text \<open>
  The module defines one class, \<^verbatim>\<open>WeightingFunctionsProcessor\<close>, with a constructor,
  the setter \<^verbatim>\<open>set_job_id\<close> and the operation \<^verbatim>\<open>execute\<close>. The processor object is a
  record, the operating system (environment variables, the configuration file, the
  directories, the container runs) is a record that \<open>execute\<close> takes and returns, and
  every exception is a value of the type \<open>error\<close>.
\<close>

subsection \<open>Values\<close>

text \<open>
  The values that \<^verbatim>\<open>json.load\<close> produces and that a request carries. \<open>JNull\<close> is
  Python's \<^verbatim>\<open>None\<close>; a dict is a list of key-value pairs in insertion order, with
  distinct keys. Numbers are integers: no number is ever inspected by the module.
\<close>

datatype json =
    JNull
  | JBool bool
  | JInt int
  | JStr string
  | JArr "json list"
  | JObj "(string \<times> json) list"

text \<open>
  The exceptions the module can raise. \<^verbatim>\<open>ProcessorExecuteError\<close> carries the two
  arguments of its constructor, the positional message and the keyword \<^verbatim>\<open>user_msg\<close>;
  the module uses the first for a missing parameter and the second for a failed
  container run.
\<close>

datatype error =
    ProcessorExecuteError "string option" "string option"
  | FileNotFoundError string
  | JSONDecodeError
  | KeyError string
  | TypeError
  | AttributeError
  | OSError string

text \<open>\<^verbatim>\<open>obj[key]\<close> with a string key: only a dict answers, with KeyError for a missing key.\<close>

fun subscript :: "json \<Rightarrow> string \<Rightarrow> error + json" where
  "subscript (JObj kvs) k = (case map_of kvs k of None \<Rightarrow> Inl (KeyError k) | Some v \<Rightarrow> Inr v)"
| "subscript _ k = Inl TypeError"

text \<open>\<^verbatim>\<open>s.rstrip(chars)\<close> on a string removes every trailing character that is in \<open>chars\<close>.\<close>

definition rstrip :: "string \<Rightarrow> string \<Rightarrow> string" where
  "rstrip s chars = rev (dropWhile (\<lambda>c. c \<in> set chars) (rev s))"

text \<open>\<^verbatim>\<open>obj.rstrip(chars)\<close>: no JSON value but a string has the method.\<close>

fun rstrip_method :: "json \<Rightarrow> string \<Rightarrow> error + string" where
  "rstrip_method (JStr s) chars = Inr (rstrip s chars)"
| "rstrip_method _ chars = Inl AttributeError"

text \<open>\<^verbatim>\<open>configJSON[key].rstrip('/')\<close>, lines 37 and 38.\<close>

definition config_stripped :: "json \<Rightarrow> string \<Rightarrow> error + string" where
  "config_stripped configJSON k =
     (case subscript configJSON k of
        Inl e \<Rightarrow> Inl e
      | Inr v \<Rightarrow> rstrip_method v ''/'')"

text \<open>\<^verbatim>\<open>data.get(key)\<close>: \<^verbatim>\<open>None\<close> for an absent key.\<close>

definition dict_get :: "(string \<rightharpoonup> json) \<Rightarrow> string \<Rightarrow> json" where
  "dict_get d k = (case d k of None \<Rightarrow> JNull | Some v \<Rightarrow> v)"

subsection \<open>Process metadata\<close>

text \<open>
  Modelled from the spec: the sidecar document \<^verbatim>\<open>weighting_functions.json\<close> that the
  module loads into \<^verbatim>\<open>PROCESS_METADATA\<close> is not among the sources. The spec describes it
  as a static structured document providing the process id and, per output, a title and
  a description: a record with the id and a dict from output names to title and
  description. An output name that the document lacks is a KeyError in \<open>execute\<close>.
\<close>

record output_metadata =
  title :: string
  description :: string

record process_metadata =
  meta_id :: string
  meta_outputs :: "string \<rightharpoonup> output_metadata"

subsection \<open>The processor object and the operating system\<close>

text \<open>
  The attributes of the processor. The three that \<open>execute\<close> reads from the
  configuration file do not exist after construction (\<open>None\<close>). The base class of the
  framework, which also keeps a name from the processor definition, is outside the
  module.
\<close>

record processor =
  metadata :: process_metadata
  supports_outputs :: bool
  process_id :: string
  my_job_id :: string
  image_name :: string
  script_name :: string
  docker_executable :: "json option"
  download_dir :: "string option"
  download_url :: "string option"

text \<open>One call of \<^verbatim>\<open>docker_utils.run_docker_container\<close>: its five arguments, in order.\<close>

record invocation =
  inv_docker_executable :: json
  inv_image_name :: string
  inv_script_name :: string
  inv_output_dir :: string
  inv_script_args :: "json list"

text \<open>What the call returns: return code, stdout, stderr and the user's error message.\<close>

type_synonym exec_result = "int \<times> string \<times> string \<times> string"

text \<open>
  The operating system as far as the module touches it: the environment variables; the
  readable files, each with what \<^verbatim>\<open>json.load\<close> makes of it (\<open>None\<close> when it is not
  JSON); the paths at which \<^verbatim>\<open>os.makedirs\<close> fails; the directories that exist
  (parents are not tracked); and the container runs so far, oldest first.
\<close>

record world =
  environ :: "string \<rightharpoonup> string"
  json_files :: "string \<rightharpoonup> json option"
  unwritable :: "string set"
  dirs :: "string set"
  invocations :: "invocation list"

text \<open>\<^verbatim>\<open>os.makedirs(path, exist_ok=True)\<close>\<close>

definition makedirs :: "string \<Rightarrow> world \<Rightarrow> error + world" where
  "makedirs path w =
     (if path \<in> unwritable w then Inl (OSError path)
      else Inr (w\<lparr>dirs := insert path (dirs w)\<rparr>))"

subsection \<open>Constructor and setter\<close>

text \<open>\<^verbatim>\<open>__init__\<close>, lines 18 to 24, with \<^verbatim>\<open>PROCESS_METADATA\<close> as a parameter.\<close>

definition init :: "process_metadata \<Rightarrow> processor" where
  "init PROCESS_METADATA =
     \<lparr> metadata = PROCESS_METADATA,
       supports_outputs = True,
       process_id = meta_id PROCESS_METADATA,
       my_job_id = ''nothing-yet'',
       image_name = ''aquainfra-elbe-usecase-image:20251201'',
       script_name = ''weighting_functions.R'',
       docker_executable = None,
       download_dir = None,
       download_url = None \<rparr>"

text \<open>\<^verbatim>\<open>set_job_id\<close>, lines 26 and 27.\<close>

definition set_job_id :: "processor \<Rightarrow> string \<Rightarrow> processor" where
  "set_job_id self job_id = self\<lparr>my_job_id := job_id\<rparr>"

subsection \<open>execute\<close>

text \<open>Line 33: \<^verbatim>\<open>os.environ.get('AQUAINFRA_CONFIG_FILE', "./config.json")\<close>\<close>

definition config_file_path :: "world \<Rightarrow> string" where
  "config_file_path w =
     (case environ w ''AQUAINFRA_CONFIG_FILE'' of None \<Rightarrow> ''./config.json'' | Some p \<Rightarrow> p)"

text \<open>
  Lines 34 to 43: the configuration is read and stored in the object, attribute by
  attribute (an exception leaves the attributes stored before it), the output directory
  and URL are built and the directory is created. The result is the pair of output
  directory and output URL.
\<close>

definition execute_setup :: "processor \<Rightarrow> world \<Rightarrow> (error + string \<times> string) \<times> processor \<times> world" where
  "execute_setup self w =
     (case json_files w (config_file_path w) of
           None \<Rightarrow> (Inl (FileNotFoundError (config_file_path w)), self, w)
         | Some None \<Rightarrow> (Inl JSONDecodeError, self, w)
         | Some (Some configJSON) \<Rightarrow>
             (case subscript configJSON ''docker_executable'' of
                Inl e \<Rightarrow> (Inl e, self, w)
              | Inr de \<Rightarrow>
                  (let self1 = self\<lparr>docker_executable := Some de\<rparr>
                   in case config_stripped configJSON ''download_dir'' of
                        Inl e \<Rightarrow> (Inl e, self1, w)
                      | Inr dd \<Rightarrow>
                          (let self2 = self1\<lparr>download_dir := Some dd\<rparr>
                           in case config_stripped configJSON ''download_url'' of
                                Inl e \<Rightarrow> (Inl e, self2, w)
                              | Inr du \<Rightarrow>
                                  (let self3 = self2\<lparr>download_url := Some du\<rparr>;
                                       output_dir = dd @ ''/out/'' @ process_id self3 @ ''/job_'' @ my_job_id self3;
                                       output_url = du @ ''/out/'' @ process_id self3 @ ''/job_'' @ my_job_id self3
                                   in case makedirs output_dir w of
                                        Inl e \<Rightarrow> (Inl e, self3, w)
                                      | Inr w1 \<Rightarrow> (Inr (output_dir, output_url), self3, w1))))))"

text \<open>The message of lines 52, 54 and 56 for the parameter \<open>k\<close>.\<close>

definition missing_parameter :: "string \<Rightarrow> string" where
  "missing_parameter k =
     ''Missing parameter '' @ [CHR 0x22] @ k @ [CHR 0x22] @ ''. Please provide a '' @ k @ ''.''"

text \<open>One entry of the response's outputs, lines 94 to 98 and 99 to 103.\<close>

definition output_entry :: "output_metadata \<Rightarrow> string \<Rightarrow> json" where
  "output_entry m link =
     JObj [(''title'', JStr (title m)), (''description'', JStr (description m)), (''href'', JStr link)]"

text \<open>
  \<^verbatim>\<open>execute\<close>, lines 32 to 107. The container invoker \<^verbatim>\<open>docker_utils.run_docker_container\<close>
  is a parameter: any function from the call to its four results. The call is recorded
  in the world. The result is what \<open>execute\<close> returns or raises, and the object and the
  world as it leaves them.
\<close>

definition execute ::
  "(invocation \<Rightarrow> exec_result) \<Rightarrow> processor \<Rightarrow> (string \<rightharpoonup> json) \<Rightarrow> json \<Rightarrow> world
     \<Rightarrow> (error + string \<times> json) \<times> processor \<times> world" where
  "execute run_docker_container self0 data outputs w0 =
     (case execute_setup self0 w0 of
        (Inl e, self, w) \<Rightarrow> (Inl e, self, w)
      | (Inr (output_dir, output_url), self, w) \<Rightarrow>
          (let in_inputFile_tif = dict_get data ''inputFile1_tif'';
               in_inputFile_gpkg = dict_get data ''inputFile2_gpkg'';
               in_inputFile_dbf = dict_get data ''inputFile3_dbf''
           in if in_inputFile_tif = JNull then
                (Inl (ProcessorExecuteError (Some (missing_parameter ''inputFile1_tif'')) None), self, w)
              else if in_inputFile_gpkg = JNull then
                (Inl (ProcessorExecuteError (Some (missing_parameter ''inputFile2_gpkg'')) None), self, w)
              else if in_inputFile_dbf = JNull then
                (Inl (ProcessorExecuteError (Some (missing_parameter ''inputFile3_dbf'')) None), self, w)
              else
                (let downloadfilename1 = ''weight_table-'' @ my_job_id self @ ''.csv'';
                     downloadfilename2 = ''weight_table-'' @ my_job_id self @ ''.rds'';
                     downloadfilepath1 = output_dir @ ''/'' @ downloadfilename1;
                     downloadfilepath2 = output_dir @ ''/'' @ downloadfilename2;
                     downloadlink1 = output_url @ ''/'' @ downloadfilename1;
                     downloadlink2 = output_url @ ''/'' @ downloadfilename2;
                     script_args =
                       [in_inputFile_tif, in_inputFile_gpkg, in_inputFile_dbf,
                        JStr downloadfilepath1, JStr downloadfilepath2]
                 in case docker_executable self of
                      None \<Rightarrow> (Inl AttributeError, self, w)
                    | Some de \<Rightarrow>
                        (let call = \<lparr> inv_docker_executable = de,
                                      inv_image_name = image_name self,
                                      inv_script_name = script_name self,
                                      inv_output_dir = output_dir,
                                      inv_script_args = script_args \<rparr>;
                             w1 = w\<lparr>invocations := invocations w @ [call]\<rparr>
                         in case run_docker_container call of
                              (returncode, stdout, stderr, user_err_msg) \<Rightarrow>
                                if returncode \<noteq> 0 then
                                  (let user_err_msg1 =
                                         (if length user_err_msg = 0 then ''no message'' else user_err_msg);
                                       err_msg = ''Running docker container failed: '' @ user_err_msg1
                                   in (Inl (ProcessorExecuteError None (Some err_msg)), self, w1))
                                else
                                  (case meta_outputs (metadata self) ''weight_table_csv'' of
                                     None \<Rightarrow> (Inl (KeyError ''weight_table_csv''), self, w1)
                                   | Some m_csv \<Rightarrow>
                                       (case meta_outputs (metadata self) ''weight_table_rds'' of
                                          None \<Rightarrow> (Inl (KeyError ''weight_table_rds''), self, w1)
                                        | Some m_rds \<Rightarrow>
                                            (let response_object =
                                                   JObj [(''outputs'',
                                                     JObj [(''weight_table_csv'', output_entry m_csv downloadlink1),
                                                           (''weight_table_rds'', output_entry m_rds downloadlink2)])]
                                             in (Inr (''application/json'', response_object), self, w1))))))))"

subsection \<open>Reading a request and a response\<close>

text \<open>The three parameters that lines 46 to 56 read and check, in the order of the checks.\<close>

definition required_inputs :: "string list" where
  "required_inputs = [''inputFile1_tif'', ''inputFile2_gpkg'', ''inputFile3_dbf'']"

text \<open>The names of a response's outputs, in order: the keys of \<^verbatim>\<open>response["outputs"]\<close>.\<close>

definition output_names :: "json \<Rightarrow> string list option" where
  "output_names response =
     (case subscript response ''outputs'' of
        Inr (JObj kvs) \<Rightarrow> Some (map fst kvs)
      | _ \<Rightarrow> None)"

text \<open>\<^verbatim>\<open>response["outputs"][name]["href"]\<close>, when the response has it.\<close>

definition response_href :: "json \<Rightarrow> string \<Rightarrow> json option" where
  "response_href response name =
     (case subscript response ''outputs'' of
        Inl e \<Rightarrow> None
      | Inr os \<Rightarrow>
          (case subscript os name of
             Inl e \<Rightarrow> None
           | Inr entry \<Rightarrow>
               (case subscript entry ''href'' of
                  Inl e \<Rightarrow> None
                | Inr h \<Rightarrow> Some h)))"

subsection \<open>The scenario of the specification\<close>

text \<open>
  A request for \<^verbatim>\<open>a.tif\<close>, \<^verbatim>\<open>b.gpkg\<close> and \<^verbatim>\<open>c.dbf\<close>, job id 42, and a configuration
  file at the default path with download directory \<^verbatim>\<open>/data/\<close> and download URL
  \<^verbatim>\<open>https://x/files/\<close>.
\<close>

definition example_metadata :: process_metadata where
  "example_metadata =
     \<lparr> meta_id = ''weighting-functions'',
       meta_outputs = map_of
         [(''weight_table_csv'', \<lparr> title = ''Weight table'', description = ''Weights as csv'' \<rparr>),
          (''weight_table_rds'', \<lparr> title = ''Weight table (R)'', description = ''Weights as rds'' \<rparr>)] \<rparr>"

definition example_processor :: processor where
  "example_processor = set_job_id (init example_metadata) ''42''"

definition example_config :: json where
  "example_config =
     JObj [(''docker_executable'', JStr ''/usr/bin/docker''),
           (''download_dir'', JStr ''/data/''),
           (''download_url'', JStr ''https://x/files/'')]"

definition example_world :: world where
  "example_world =
     \<lparr> environ = map_of [],
       json_files = map_of [(''./config.json'', Some example_config)],
       unwritable = {},
       dirs = {},
       invocations = [] \<rparr>"

definition example_request :: "string \<rightharpoonup> json" where
  "example_request =
     map_of [(''inputFile1_tif'', JStr ''a.tif''),
             (''inputFile2_gpkg'', JStr ''b.gpkg''),
             (''inputFile3_dbf'', JStr ''c.dbf'')]"

text \<open>An invoker whose every run returns the code \<open>rc\<close> and the message \<open>user_err_msg\<close>.\<close>

definition example_run :: "int \<Rightarrow> string \<Rightarrow> invocation \<Rightarrow> exec_result" where
  "example_run rc user_err_msg call = (rc, ''stdout'', ''stderr'', user_err_msg)"

text \<open>
  What the scenario leads to when the three inputs are present: the one call of the
  invoker, the response of a successful run, and the object and the world afterwards.
\<close>

definition example_call :: invocation where
  "example_call =
     \<lparr> inv_docker_executable = JStr ''/usr/bin/docker'',
       inv_image_name = ''aquainfra-elbe-usecase-image:20251201'',
       inv_script_name = ''weighting_functions.R'',
       inv_output_dir = ''/data/out/weighting-functions/job_42'',
       inv_script_args =
         [JStr ''a.tif'', JStr ''b.gpkg'', JStr ''c.dbf'',
          JStr ''/data/out/weighting-functions/job_42/weight_table-42.csv'',
          JStr ''/data/out/weighting-functions/job_42/weight_table-42.rds''] \<rparr>"

definition example_response :: json where
  "example_response =
     JObj [(''outputs'',
       JObj [(''weight_table_csv'',
                JObj [(''title'', JStr ''Weight table''),
                      (''description'', JStr ''Weights as csv''),
                      (''href'', JStr ''https://x/files/out/weighting-functions/job_42/weight_table-42.csv'')]),
             (''weight_table_rds'',
                JObj [(''title'', JStr ''Weight table (R)''),
                      (''description'', JStr ''Weights as rds''),
                      (''href'', JStr ''https://x/files/out/weighting-functions/job_42/weight_table-42.rds'')])])]"

definition example_processor_after :: processor where
  "example_processor_after =
     example_processor\<lparr>docker_executable := Some (JStr ''/usr/bin/docker''),
                        download_dir := Some ''/data'',
                        download_url := Some ''https://x/files''\<rparr>"

definition example_world_after :: world where
  "example_world_after =
     example_world\<lparr>dirs := {''/data/out/weighting-functions/job_42''},
                    invocations := [example_call]\<rparr>"

section \<open>Properties\<close>

subsection \<open>Reading the configuration\<close>

lemma subscript_error:
  "subscript j k = Inl e \<Longrightarrow> e = KeyError k \<or> e = TypeError"
  by (cases j) (auto split: option.splits)

lemma rstrip_method_error:
  "rstrip_method j chars = Inl e \<Longrightarrow> e = AttributeError"
  by (cases j) auto

lemma config_stripped_error:
  "config_stripped cfg k = Inl e \<Longrightarrow> e = KeyError k \<or> e = TypeError \<or> e = AttributeError"
  by (auto simp: config_stripped_def split: sum.splits dest: subscript_error rstrip_method_error)

lemma config_stripped_Inr:
  "config_stripped cfg k = Inr d \<Longrightarrow> \<exists>s. subscript cfg k = Inr (JStr s) \<and> d = rstrip s ''/''"
  apply (auto simp: config_stripped_def split: sum.splits)
  subgoal for v by (cases v) auto
  done

lemma execute_setup_Inr:
  assumes "execute_setup self0 w0 = (Inr (od, ou), self, w)"
  shows "\<exists>cfg de dd du.
           json_files w0 (config_file_path w0) = Some (Some cfg)
         \<and> subscript cfg ''docker_executable'' = Inr de
         \<and> config_stripped cfg ''download_dir'' = Inr dd
         \<and> config_stripped cfg ''download_url'' = Inr du
         \<and> self = self0\<lparr>docker_executable := Some de, download_dir := Some dd, download_url := Some du\<rparr>
         \<and> od = dd @ ''/out/'' @ process_id self0 @ ''/job_'' @ my_job_id self0
         \<and> ou = du @ ''/out/'' @ process_id self0 @ ''/job_'' @ my_job_id self0
         \<and> od \<notin> unwritable w0
         \<and> w = w0\<lparr>dirs := insert od (dirs w0)\<rparr>"
  using assms
  by (auto simp: execute_setup_def makedirs_def Let_def split: option.splits sum.splits if_splits)

lemma execute_setup_Inl:
  assumes "execute_setup self0 w0 = (Inl e, self, w)"
  shows "w = w0 \<and> (\<forall>m um. e \<noteq> ProcessorExecuteError m um)"
  using assms
  by (auto simp: execute_setup_def makedirs_def Let_def split: option.splits sum.splits if_splits
        dest: subscript_error config_stripped_error)

lemma execute_setup_attrs:
  assumes "execute_setup self0 w0 = (r, self, w)"
  shows "process_id self = process_id self0" "my_job_id self = my_job_id self0"
        "metadata self = metadata self0" "image_name self = image_name self0"
        "script_name self = script_name self0"
  using assms
  by (auto simp: execute_setup_def Let_def split: option.splits sum.splits)

lemma execute_setup_urls:
  assumes "execute_setup self0 w0 = (Inr (od, ou), self, w)"
  shows "\<exists>dd du. download_dir self = Some dd \<and> download_url self = Some du
           \<and> od = dd @ ''/out/'' @ process_id self0 @ ''/job_'' @ my_job_id self0
           \<and> ou = du @ ''/out/'' @ process_id self0 @ ''/job_'' @ my_job_id self0"
  using execute_setup_Inr[OF assms] by auto

lemma execute_setup_config:
  assumes "json_files w0 (config_file_path w0) = Some (Some cfg)"
      and "subscript cfg ''docker_executable'' = Inr de"
      and "subscript cfg ''download_dir'' = Inr (JStr sdir)"
      and "subscript cfg ''download_url'' = Inr (JStr surl)"
  shows "fst (snd (execute_setup self0 w0)) =
           self0\<lparr>docker_executable := Some de,
                  download_dir := Some (rstrip sdir ''/''),
                  download_url := Some (rstrip surl ''/'')\<rparr>"
  using assms
  by (simp add: execute_setup_def config_stripped_def makedirs_def Let_def)

text \<open>\<^verbatim>\<open>rstrip('/')\<close> leaves no trailing slash and removes nothing but slashes.\<close>

lemma rstrip_no_trailing:
  "rstrip s chars = [] \<or> last (rstrip s chars) \<notin> set chars"
proof (cases "dropWhile (\<lambda>c. c \<in> set chars) (rev s)")
  case Nil
  then show ?thesis by (simp add: rstrip_def)
next
  case (Cons x xs)
  then have "hd (dropWhile (\<lambda>c. c \<in> set chars) (rev s)) \<notin> set chars"
    using hd_dropWhile[of "\<lambda>c. c \<in> set chars" "rev s"] by simp
  with Cons show ?thesis
    by (simp add: rstrip_def last_rev)
qed

lemma rstrip_slashes:
  "\<exists>n. s = rstrip s ''/'' @ replicate n (CHR ''/'')"
proof -
  let ?P = "\<lambda>c. c \<in> set ''/''"
  have "\<forall>c \<in> set (takeWhile ?P (rev s)). c = CHR ''/''"
    by (auto dest: set_takeWhileD)
  then have t: "replicate (length (takeWhile ?P (rev s))) (CHR ''/'') = takeWhile ?P (rev s)"
    by (rule replicate_length_same)
  have "rev s = takeWhile ?P (rev s) @ dropWhile ?P (rev s)"
    by simp
  then have "s = rev (dropWhile ?P (rev s)) @ rev (takeWhile ?P (rev s))"
    by (metis rev_append rev_rev_ident)
  also have "rev (takeWhile ?P (rev s)) = replicate (length (takeWhile ?P (rev s))) (CHR ''/'')"
    by (subst t[symmetric]) simp
  finally show ?thesis
    unfolding rstrip_def by blast
qed

subsection \<open>The branches of execute\<close>

text \<open>What \<open>execute\<close> does after lines 33 to 43 went through, branch by branch.\<close>

lemma execute_missing_tif:
  assumes "execute_setup self0 w0 = (Inr (od, ou), self, w)"
      and "dict_get data ''inputFile1_tif'' = JNull"
  shows "execute run self0 data outputs w0 =
           (Inl (ProcessorExecuteError (Some (missing_parameter ''inputFile1_tif'')) None), self, w)"
  using assms by (simp add: execute_def)

lemma execute_missing_gpkg:
  assumes "execute_setup self0 w0 = (Inr (od, ou), self, w)"
      and "dict_get data ''inputFile1_tif'' \<noteq> JNull"
      and "dict_get data ''inputFile2_gpkg'' = JNull"
  shows "execute run self0 data outputs w0 =
           (Inl (ProcessorExecuteError (Some (missing_parameter ''inputFile2_gpkg'')) None), self, w)"
  using assms by (simp add: execute_def)

lemma execute_missing_dbf:
  assumes "execute_setup self0 w0 = (Inr (od, ou), self, w)"
      and "dict_get data ''inputFile1_tif'' \<noteq> JNull"
      and "dict_get data ''inputFile2_gpkg'' \<noteq> JNull"
      and "dict_get data ''inputFile3_dbf'' = JNull"
  shows "execute run self0 data outputs w0 =
           (Inl (ProcessorExecuteError (Some (missing_parameter ''inputFile3_dbf'')) None), self, w)"
  using assms by (simp add: execute_def)

lemma execute_setup_invocations:
  "execute_setup self0 w0 = (r, self, w) \<Longrightarrow> invocations w = invocations w0"
  by (cases r) (auto dest: execute_setup_Inl execute_setup_Inr)

lemma dict_get_JNull:
  "dict_get data j = JNull \<longleftrightarrow> (data j = None \<or> data j = Some JNull)"
  by (simp add: dict_get_def split: option.splits)

lemma execute_setup_error:
  assumes "execute_setup self0 w0 = (Inl e, self, w)"
  shows "execute run self0 data outputs w0 = (Inl e, self, w)"
  using assms by (simp add: execute_def)

lemma execute_run:
  assumes prep: "execute_setup self0 w0 = (Inr (od, ou), self, w)"
      and tif: "dict_get data ''inputFile1_tif'' \<noteq> JNull"
      and gpkg: "dict_get data ''inputFile2_gpkg'' \<noteq> JNull"
      and dbf: "dict_get data ''inputFile3_dbf'' \<noteq> JNull"
      and de: "docker_executable self = Some de"
      and call: "call = \<lparr> inv_docker_executable = de,
                           inv_image_name = image_name self,
                           inv_script_name = script_name self,
                           inv_output_dir = od,
                           inv_script_args =
                             [dict_get data ''inputFile1_tif'', dict_get data ''inputFile2_gpkg'',
                              dict_get data ''inputFile3_dbf'',
                              JStr (od @ ''/weight_table-'' @ my_job_id self @ ''.csv''),
                              JStr (od @ ''/weight_table-'' @ my_job_id self @ ''.rds'')] \<rparr>"
  shows "snd (execute run self0 data outputs w0) = (self, w\<lparr>invocations := invocations w @ [call]\<rparr>)"
    and "fst (run call) \<noteq> 0 \<Longrightarrow>
           fst (execute run self0 data outputs w0) =
             Inl (ProcessorExecuteError None
                   (Some (''Running docker container failed: '' @
                      (if snd (snd (snd (run call))) = [] then ''no message''
                       else snd (snd (snd (run call)))))))"
    and "fst (run call) = 0 \<Longrightarrow>
           fst (execute run self0 data outputs w0) =
             (case meta_outputs (metadata self) ''weight_table_csv'' of
                None \<Rightarrow> Inl (KeyError ''weight_table_csv'')
              | Some m_csv \<Rightarrow>
                  (case meta_outputs (metadata self) ''weight_table_rds'' of
                     None \<Rightarrow> Inl (KeyError ''weight_table_rds'')
                   | Some m_rds \<Rightarrow>
                       Inr (''application/json'',
                            JObj [(''outputs'',
                              JObj [(''weight_table_csv'',
                                       output_entry m_csv (ou @ ''/weight_table-'' @ my_job_id self @ ''.csv'')),
                                    (''weight_table_rds'',
                                       output_entry m_rds (ou @ ''/weight_table-'' @ my_job_id self @ ''.rds''))])])))"
proof -
  obtain rc so se um where r: "run call = (rc, so, se, um)"
    by (cases "run call") auto
  note facts = prep tif gpkg dbf de r[unfolded call]
  show "snd (execute run self0 data outputs w0) = (self, w\<lparr>invocations := invocations w @ [call]\<rparr>)"
    using facts unfolding call
    by (simp add: execute_def Let_def split: option.splits)
  show "fst (execute run self0 data outputs w0) =
             Inl (ProcessorExecuteError None
                   (Some (''Running docker container failed: '' @
                      (if snd (snd (snd (run call))) = [] then ''no message''
                       else snd (snd (snd (run call)))))))"
    if "fst (run call) \<noteq> 0"
    using facts that unfolding call
    by (simp add: execute_def Let_def)
  show "fst (execute run self0 data outputs w0) =
             (case meta_outputs (metadata self) ''weight_table_csv'' of
                None \<Rightarrow> Inl (KeyError ''weight_table_csv'')
              | Some m_csv \<Rightarrow>
                  (case meta_outputs (metadata self) ''weight_table_rds'' of
                     None \<Rightarrow> Inl (KeyError ''weight_table_rds'')
                   | Some m_rds \<Rightarrow>
                       Inr (''application/json'',
                            JObj [(''outputs'',
                              JObj [(''weight_table_csv'',
                                       output_entry m_csv (ou @ ''/weight_table-'' @ my_job_id self @ ''.csv'')),
                                    (''weight_table_rds'',
                                       output_entry m_rds (ou @ ''/weight_table-'' @ my_job_id self @ ''.rds''))])])))"
    if "fst (run call) = 0"
    using facts that unfolding call
    by (simp add: execute_def Let_def split: option.splits)
qed

lemma execute_cases:
  obtains
    (config) e self w where
      "execute_setup self0 w0 = (Inl e, self, w)"
      "execute run self0 data outputs w0 = (Inl e, self, w)"
  | (missing) od ou self w k where
      "execute_setup self0 w0 = (Inr (od, ou), self, w)"
      "find (\<lambda>k. dict_get data k = JNull) required_inputs = Some k"
      "execute run self0 data outputs w0 =
         (Inl (ProcessorExecuteError (Some (missing_parameter k)) None), self, w)"
  | (ran) od ou self w de where
      "execute_setup self0 w0 = (Inr (od, ou), self, w)"
      "dict_get data ''inputFile1_tif'' \<noteq> JNull"
      "dict_get data ''inputFile2_gpkg'' \<noteq> JNull"
      "dict_get data ''inputFile3_dbf'' \<noteq> JNull"
      "docker_executable self = Some de"
proof -
  obtain r self w where s: "execute_setup self0 w0 = (r, self, w)"
    by (cases "execute_setup self0 w0") auto
  show ?thesis
  proof (cases r)
    case (Inl e)
    with s config execute_setup_error show ?thesis by blast
  next
    case (Inr p)
    then obtain od ou where prep: "execute_setup self0 w0 = (Inr (od, ou), self, w)"
      using s by (cases p) auto
    from execute_setup_Inr[OF prep] obtain de where de: "docker_executable self = Some de"
      by auto
    show ?thesis
    proof (cases "dict_get data ''inputFile1_tif'' = JNull")
      case True
      with missing[OF prep _ execute_missing_tif[OF prep True]] show ?thesis
        by (simp add: required_inputs_def)
    next
      case tif: False
      show ?thesis
      proof (cases "dict_get data ''inputFile2_gpkg'' = JNull")
        case True
        with missing[OF prep _ execute_missing_gpkg[OF prep tif True]] tif show ?thesis
          by (simp add: required_inputs_def)
      next
        case gpkg: False
        show ?thesis
        proof (cases "dict_get data ''inputFile3_dbf'' = JNull")
          case True
          with missing[OF prep _ execute_missing_dbf[OF prep tif gpkg True]] tif gpkg show ?thesis
            by (simp add: required_inputs_def)
        next
          case False
          with ran[OF prep tif gpkg _ de] show ?thesis by simp
        qed
      qed
    qed
  qed
qed

text \<open>The object and the directories after an execution.\<close>

lemma execute_self_dirs:
  assumes ex: "execute run self0 data outputs w0 = (r, self, w)"
  shows "self = fst (snd (execute_setup self0 w0))"
    and "dirs w = dirs w0 \<or>
         (\<exists>dd. download_dir self = Some dd
             \<and> dirs w = insert (dd @ ''/out/'' @ process_id self0 @ ''/job_'' @ my_job_id self0) (dirs w0))"
proof -
  have "self = fst (snd (execute_setup self0 w0)) \<and>
        (dirs w = dirs w0 \<or>
         (\<exists>dd. download_dir self = Some dd
             \<and> dirs w = insert (dd @ ''/out/'' @ process_id self0 @ ''/job_'' @ my_job_id self0) (dirs w0)))"
  proof (cases rule: execute_cases[of self0 w0 run data outputs])
    case (config e self' w')
    have "w' = w0"
      using execute_setup_Inl[OF config(1)] by simp
    with config ex show ?thesis by simp
  next
    case (missing od ou self' w' k)
    from execute_setup_Inr[OF missing(1)] obtain dd where
        "download_dir self' = Some dd"
        "dirs w' = insert (dd @ ''/out/'' @ process_id self0 @ ''/job_'' @ my_job_id self0) (dirs w0)"
      by auto
    with missing ex show ?thesis by simp
  next
    case (ran od ou self' w' de)
    define call where "call = \<lparr> inv_docker_executable = de,
             inv_image_name = image_name self',
             inv_script_name = script_name self',
             inv_output_dir = od,
             inv_script_args =
               [dict_get data ''inputFile1_tif'', dict_get data ''inputFile2_gpkg'',
                dict_get data ''inputFile3_dbf'',
                JStr (od @ ''/weight_table-'' @ my_job_id self' @ ''.csv''),
                JStr (od @ ''/weight_table-'' @ my_job_id self' @ ''.rds'')] \<rparr>"
    have "snd (execute run self0 data outputs w0) = (self', w'\<lparr>invocations := invocations w' @ [call]\<rparr>)"
      using ran call_def by (rule execute_run(1))
    with ex have eq: "self = self'" "dirs w = dirs w'"
      by simp_all
    from execute_setup_Inr[OF ran(1)] obtain dd where
        "download_dir self' = Some dd"
        "dirs w' = insert (dd @ ''/out/'' @ process_id self0 @ ''/job_'' @ my_job_id self0) (dirs w0)"
      by auto
    with eq ran(1) show ?thesis by simp
  qed
  then show "self = fst (snd (execute_setup self0 w0))"
    and "dirs w = dirs w0 \<or>
         (\<exists>dd. download_dir self = Some dd
             \<and> dirs w = insert (dd @ ''/out/'' @ process_id self0 @ ''/job_'' @ my_job_id self0) (dirs w0))"
    by blast+
qed

lemma response_href_entries:
  "response_href
     (JObj [(''outputs'',
        JObj [(''weight_table_csv'', output_entry m_csv link1),
              (''weight_table_rds'', output_entry m_rds link2)])]) ''weight_table_csv''
     = Some (JStr link1)"
  "response_href
     (JObj [(''outputs'',
        JObj [(''weight_table_csv'', output_entry m_csv link1),
              (''weight_table_rds'', output_entry m_rds link2)])]) ''weight_table_rds''
     = Some (JStr link2)"
  by (simp_all add: response_href_def output_entry_def)

subsection \<open>The scenario, evaluated\<close>

lemma rstrip_example_dir: "rstrip ''/data/'' ''/'' = ''/data''"
  by (simp add: rstrip_def)

lemma rstrip_example_url: "rstrip ''https://x/files/'' ''/'' = ''https://x/files''"
  by (simp add: rstrip_def)

lemma example_setup:
  "execute_setup example_processor example_world =
     (Inr (''/data/out/weighting-functions/job_42'', ''https://x/files/out/weighting-functions/job_42''),
      example_processor\<lparr>docker_executable := Some (JStr ''/usr/bin/docker''),
                          download_dir := Some ''/data'',
                          download_url := Some ''https://x/files''\<rparr>,
      example_world\<lparr>dirs := {''/data/out/weighting-functions/job_42''}\<rparr>)"
  by (simp add: execute_setup_def config_file_path_def example_world_def example_config_def
        config_stripped_def rstrip_example_dir rstrip_example_url makedirs_def
        example_processor_def set_job_id_def init_def example_metadata_def Let_def)

lemma example_execute_ok:
  "execute (example_run 0 msg) example_processor example_request outputs example_world =
     (Inr (''application/json'', example_response), example_processor_after, example_world_after)"
  unfolding execute_def example_setup prod.case sum.case
  by (simp add: dict_get_def example_request_def Let_def
        example_run_def example_call_def example_response_def output_entry_def
        example_processor_after_def example_world_after_def
        example_processor_def set_job_id_def init_def example_metadata_def example_world_def)


lemma example_execute_missing:
  "execute run example_processor (example_request(''inputFile2_gpkg'' := None)) outputs example_world =
     (Inl (ProcessorExecuteError (Some (missing_parameter ''inputFile2_gpkg'')) None),
      example_processor_after,
      example_world\<lparr>dirs := {''/data/out/weighting-functions/job_42''}\<rparr>)"
  unfolding example_processor_after_def
  by (rule execute_missing_gpkg[OF example_setup]) (simp_all add: dict_get_def example_request_def)

subsection \<open>Validation of the request\<close>

text \<open>
  C1. When one of the three required parameters \<open>inputFile1_tif\<close>, \<open>inputFile2_gpkg\<close>,
  \<open>inputFile3_dbf\<close> is absent from the request or null, \<open>execute\<close> never calls the
  container invoker; and once the configuration is loaded and the output directory
  created (lines 33 to 43), it raises \<^verbatim>\<open>ProcessorExecuteError\<close> with the message
  \<^verbatim>\<open>Missing parameter "k". Please provide a k.\<close> where \<open>k\<close> is the name of a required
  parameter that is missing, and is that very parameter when it is the only one missing.
\<close>

theorem C1_missing_required_input:
  assumes k: "k \<in> set required_inputs"
      and missing: "data k = None \<or> data k = Some JNull"
  shows "invocations (snd (snd (execute run self0 data outputs w0))) = invocations w0
       \<and> ((\<exists>od ou self w. execute_setup self0 w0 = (Inr (od, ou), self, w)) \<longrightarrow>
            (\<exists>k'. k' \<in> set required_inputs
                \<and> (data k' = None \<or> data k' = Some JNull)
                \<and> ((\<forall>j \<in> set required_inputs. j \<noteq> k \<longrightarrow> (\<exists>v. data j = Some v \<and> v \<noteq> JNull))
                      \<longrightarrow> k' = k)
                \<and> fst (execute run self0 data outputs w0)
                     = Inl (ProcessorExecuteError
                         (Some (''Missing parameter '' @ [CHR 0x22] @ k' @ [CHR 0x22]
                              @ ''. Please provide a '' @ k' @ ''.'')) None)))"
proof (cases rule: execute_cases[of self0 w0 run data outputs])
  case (config e self w)
  have "invocations w = invocations w0"
    using config(1) by (rule execute_setup_invocations)
  then show ?thesis
    using config by simp
next
  case (missing od ou self w k')
  have kin: "k' \<in> set required_inputs" and knull: "dict_get data k' = JNull"
    using missing(2) by (auto simp: find_Some_iff)
  have kmiss: "data k' = None \<or> data k' = Some JNull"
    using knull by (simp add: dict_get_JNull)
  have only: "k' = k"
    if others: "\<forall>j \<in> set required_inputs. j \<noteq> k \<longrightarrow> (\<exists>v. data j = Some v \<and> v \<noteq> JNull)"
  proof (rule ccontr)
    assume "k' \<noteq> k"
    with others kin obtain v where "data k' = Some v" "v \<noteq> JNull"
      by blast
    with kmiss show False by simp
  qed
  have same: "invocations w = invocations w0"
    using missing(1) by (rule execute_setup_invocations)
  have res: "fst (execute run self0 data outputs w0)
               = Inl (ProcessorExecuteError
                         (Some (''Missing parameter '' @ [CHR 0x22] @ k' @ [CHR 0x22]
                              @ ''. Please provide a '' @ k' @ ''.'')) None)"
    and wd: "snd (snd (execute run self0 data outputs w0)) = w"
    using missing(3) by (simp_all add: missing_parameter_def)
  show ?thesis
    using kin kmiss only res wd same by blast
next
  case (ran od ou self w de)
  have "dict_get data k \<noteq> JNull"
    using k ran(2,3,4) by (auto simp: required_inputs_def)
  with missing have False
    by (simp add: dict_get_JNull)
  then show ?thesis ..
qed

theorem C1_missing_required_input_witness:
  "''inputFile2_gpkg'' \<in> set required_inputs
   \<and> (example_request(''inputFile2_gpkg'' := None)) ''inputFile2_gpkg'' = None
   \<and> (\<exists>od ou self w. execute_setup example_processor example_world = (Inr (od, ou), self, w))
   \<and> fst (execute (example_run 0 []) example_processor
             (example_request(''inputFile2_gpkg'' := None)) JNull example_world)
        = Inl (ProcessorExecuteError
                 (Some (''Missing parameter '' @ [CHR 0x22] @ ''inputFile2_gpkg'' @ [CHR 0x22]
                          @ ''. Please provide a inputFile2_gpkg.'')) None)
   \<and> invocations (snd (snd (execute (example_run 0 []) example_processor
             (example_request(''inputFile2_gpkg'' := None)) JNull example_world))) = []"
proof -
  let ?data = "example_request(''inputFile2_gpkg'' := None)"
  have k: "''inputFile2_gpkg'' \<in> set required_inputs"
    by (simp add: required_inputs_def)
  have m: "?data ''inputFile2_gpkg'' = None" by simp
  have s: "\<exists>od ou self w. execute_setup example_processor example_world = (Inr (od, ou), self, w)"
    using example_setup by blast
  have others: "\<forall>j \<in> set required_inputs. j \<noteq> ''inputFile2_gpkg'' \<longrightarrow>
                  (\<exists>v. ?data j = Some v \<and> v \<noteq> JNull)"
    by (simp add: required_inputs_def example_request_def)
  note c1 = C1_missing_required_input[of "''inputFile2_gpkg''" ?data "example_run 0 []"
              example_processor JNull example_world, OF k disjI1[OF m]]
  have "invocations (snd (snd (execute (example_run 0 []) example_processor ?data JNull example_world)))
          = invocations example_world"
    using c1 by (rule conjunct1)
  then have none: "invocations (snd (snd (execute (example_run 0 []) example_processor ?data JNull
                      example_world))) = []"
    by (simp add: example_world_def)
  from c1 s others
  have "fst (execute (example_run 0 []) example_processor ?data JNull example_world)
          = Inl (ProcessorExecuteError
                   (Some (''Missing parameter '' @ [CHR 0x22] @ ''inputFile2_gpkg'' @ [CHR 0x22]
                              @ ''. Please provide a '' @ ''inputFile2_gpkg'' @ ''.'')) None)"
    by blast
  then have res: "fst (execute (example_run 0 []) example_processor ?data JNull example_world)
        = Inl (ProcessorExecuteError
                 (Some (''Missing parameter '' @ [CHR 0x22] @ ''inputFile2_gpkg'' @ [CHR 0x22]
                          @ ''. Please provide a inputFile2_gpkg.'')) None)"
    by simp
  show ?thesis
    using k m s res none by blast
qed

text \<open>
  C9. The three parameters are checked one by one in the order \<open>inputFile1_tif\<close>,
  \<open>inputFile2_gpkg\<close>, \<open>inputFile3_dbf\<close>: when the configuration is loaded and the
  directory created, the one error that \<open>execute\<close> raises has the message
  \<^verbatim>\<open>Missing parameter "k". Please provide a k.\<close> where \<open>k\<close> is the first parameter in
  that order that is absent or null, however many are missing.
\<close>

theorem C9_first_missing_reported:
  assumes prep: "execute_setup self0 w0 = (Inr (od, ou), self, w)"
      and first: "find (\<lambda>k. data k = None \<or> data k = Some JNull) required_inputs = Some k"
  shows "execute run self0 data outputs w0 =
           (Inl (ProcessorExecuteError
                   (Some (''Missing parameter '' @ [CHR 0x22] @ k @ [CHR 0x22]
                              @ ''. Please provide a '' @ k @ ''.'')) None),
            self, w)"
proof -
  have f: "find (\<lambda>k. dict_get data k = JNull) required_inputs = Some k"
    using first by (simp add: dict_get_JNull)
  show ?thesis
  proof (cases rule: execute_cases[of self0 w0 run data outputs])
    case (config e self' w')
    with prep show ?thesis by simp
  next
    case (missing od' ou' self' w' k')
    with prep f show ?thesis by (simp add: missing_parameter_def)
  next
    case (ran od' ou' self' w' de)
    have "k \<in> set required_inputs" "dict_get data k = JNull"
      using f by (auto simp: find_Some_iff)
    with ran(2,3,4) have False
      by (auto simp: required_inputs_def)
    then show ?thesis ..
  qed
qed

theorem C9_first_missing_reported_witness:
  "find (\<lambda>k. (example_request(''inputFile1_tif'' \<mapsto> JNull, ''inputFile3_dbf'' := None)) k = None
            \<or> (example_request(''inputFile1_tif'' \<mapsto> JNull, ''inputFile3_dbf'' := None)) k = Some JNull)
      required_inputs = Some ''inputFile1_tif''
   \<and> find (\<lambda>k. (Map.empty :: string \<rightharpoonup> json) k = None \<or> (Map.empty :: string \<rightharpoonup> json) k = Some JNull)
      required_inputs = Some ''inputFile1_tif''
   \<and> fst (execute (example_run 0 []) example_processor
        (example_request(''inputFile1_tif'' \<mapsto> JNull, ''inputFile3_dbf'' := None)) JNull example_world)
      = Inl (ProcessorExecuteError
             (Some (''Missing parameter '' @ [CHR 0x22] @ ''inputFile1_tif'' @ [CHR 0x22]
                      @ ''. Please provide a inputFile1_tif.'')) None)
   \<and> fst (execute (example_run 0 []) example_processor Map.empty JNull example_world)
      = Inl (ProcessorExecuteError
             (Some (''Missing parameter '' @ [CHR 0x22] @ ''inputFile1_tif'' @ [CHR 0x22]
                      @ ''. Please provide a inputFile1_tif.'')) None)"
proof -
  let ?data = "example_request(''inputFile1_tif'' \<mapsto> JNull, ''inputFile3_dbf'' := None)"
  have f1: "find (\<lambda>k. ?data k = None \<or> ?data k = Some JNull) required_inputs = Some ''inputFile1_tif''"
    by (simp add: required_inputs_def)
  have f2: "find (\<lambda>k. (Map.empty :: string \<rightharpoonup> json) k = None \<or> (Map.empty :: string \<rightharpoonup> json) k = Some JNull)
      required_inputs = Some ''inputFile1_tif''"
    by (simp add: required_inputs_def)
  have r1: "fst (execute (example_run 0 []) example_processor ?data JNull example_world)
      = Inl (ProcessorExecuteError
             (Some (''Missing parameter '' @ [CHR 0x22] @ ''inputFile1_tif'' @ [CHR 0x22]
                      @ ''. Please provide a inputFile1_tif.'')) None)"
    using C9_first_missing_reported[OF example_setup f1, of "example_run 0 []" JNull]
    by (simp only: fst_conv append.simps)
  have r2: "fst (execute (example_run 0 []) example_processor Map.empty JNull example_world)
      = Inl (ProcessorExecuteError
             (Some (''Missing parameter '' @ [CHR 0x22] @ ''inputFile1_tif'' @ [CHR 0x22]
                      @ ''. Please provide a inputFile1_tif.'')) None)"
    using C9_first_missing_reported[OF example_setup f2, of "example_run 0 []" JNull]
    by (simp only: fst_conv append.simps)
  show ?thesis
    using f1 f2 r1 r2 by blast
qed

text \<open>
  C10. Whenever \<open>execute\<close> raises the missing-parameter error, it has read the
  configuration file and stored its three values in the object, and the output directory
  \<^verbatim>\<open>{download_dir}/out/{process_id}/job_{job_id}\<close> exists afterwards: the directories are
  those before with this one added, so they differ from before when it did not exist.
  Nothing else in the world has changed, and the message is that of a parameter that is
  absent or null.
\<close>

theorem C10_directory_created_before_validation:
  assumes ex: "execute run self0 data outputs w0 =
                 (Inl (ProcessorExecuteError (Some m) None), self, w)"
  shows "\<exists>cfg de dd du.
            json_files w0 (config_file_path w0) = Some (Some cfg)
          \<and> subscript cfg ''docker_executable'' = Inr de
          \<and> config_stripped cfg ''download_dir'' = Inr dd
          \<and> config_stripped cfg ''download_url'' = Inr du
          \<and> self = self0\<lparr>docker_executable := Some de, download_dir := Some dd, download_url := Some du\<rparr>
          \<and> w = w0\<lparr>dirs := insert (dd @ ''/out/'' @ process_id self0 @ ''/job_'' @ my_job_id self0) (dirs w0)\<rparr>
          \<and> dd @ ''/out/'' @ process_id self0 @ ''/job_'' @ my_job_id self0 \<in> dirs w
          \<and> (dd @ ''/out/'' @ process_id self0 @ ''/job_'' @ my_job_id self0 \<notin> dirs w0
                \<longrightarrow> dirs w \<noteq> dirs w0)
          \<and> (\<exists>k. k \<in> set required_inputs \<and> (data k = None \<or> data k = Some JNull)
                  \<and> m = missing_parameter k)"
proof (cases rule: execute_cases[of self0 w0 run data outputs])
  case (config e self' w')
  have "\<forall>m um. e \<noteq> ProcessorExecuteError m um"
    using execute_setup_Inl[OF config(1)] by simp
  moreover have "e = ProcessorExecuteError (Some m) None"
    using config(2) ex by simp
  ultimately have False by blast
  then show ?thesis ..
next
  case (missing od ou self' w' k)
  from missing(3) ex have eq: "self' = self" "w' = w" "m = missing_parameter k"
    by simp_all
  have k: "k \<in> set required_inputs" "data k = None \<or> data k = Some JNull"
    using missing(2) by (auto simp: find_Some_iff dict_get_JNull)
  from execute_setup_Inr[OF missing(1)] obtain cfg de dd du where
      c: "json_files w0 (config_file_path w0) = Some (Some cfg)"
         "subscript cfg ''docker_executable'' = Inr de"
         "config_stripped cfg ''download_dir'' = Inr dd"
         "config_stripped cfg ''download_url'' = Inr du"
         "self' = self0\<lparr>docker_executable := Some de, download_dir := Some dd, download_url := Some du\<rparr>"
    and od: "od = dd @ ''/out/'' @ process_id self0 @ ''/job_'' @ my_job_id self0"
    and w': "w' = w0\<lparr>dirs := insert od (dirs w0)\<rparr>"
    by blast
  have d1: "od \<in> dirs w" and d2: "od \<notin> dirs w0 \<longrightarrow> dirs w \<noteq> dirs w0"
    using w' eq(2) by auto
  show ?thesis
    using c k eq w' d1 d2 unfolding od by blast
next
  case (ran od ou self' w' de)
  define call where "call = \<lparr> inv_docker_executable = de,
             inv_image_name = image_name self',
             inv_script_name = script_name self',
             inv_output_dir = od,
             inv_script_args =
               [dict_get data ''inputFile1_tif'', dict_get data ''inputFile2_gpkg'',
                dict_get data ''inputFile3_dbf'',
                JStr (od @ ''/weight_table-'' @ my_job_id self' @ ''.csv''),
                JStr (od @ ''/weight_table-'' @ my_job_id self' @ ''.rds'')] \<rparr>"
  note run = execute_run[OF ran call_def, of run outputs]
  have False
  proof (cases "fst (run call) = 0")
    case True
    with run(3) ex show False by (auto split: option.splits)
  next
    case False
    with run(2) ex show False by simp
  qed
  then show ?thesis ..
qed

theorem C10_directory_created_before_validation_witness:
  "execute (example_run 0 []) example_processor (example_request(''inputFile2_gpkg'' := None)) JNull
       example_world =
     (Inl (ProcessorExecuteError (Some (missing_parameter ''inputFile2_gpkg'')) None),
      example_processor_after,
      example_world\<lparr>dirs := {''/data/out/weighting-functions/job_42''}\<rparr>)
   \<and> ''/data/out/weighting-functions/job_42''
        \<in> dirs (example_world\<lparr>dirs := {''/data/out/weighting-functions/job_42''}\<rparr>)
   \<and> dirs (example_world\<lparr>dirs := {''/data/out/weighting-functions/job_42''}\<rparr>) \<noteq> dirs example_world"
proof -
  let ?w = "example_world\<lparr>dirs := {''/data/out/weighting-functions/job_42''}\<rparr>"
  note ex = example_execute_missing[of "example_run 0 []" JNull]
  from C10_directory_created_before_validation[OF ex]
  obtain dd de du where
      self: "example_processor_after =
               example_processor\<lparr>docker_executable := Some de, download_dir := Some dd,
                                  download_url := Some du\<rparr>"
    and created: "dd @ ''/out/'' @ process_id example_processor @ ''/job_'' @ my_job_id example_processor
                    \<in> dirs ?w"
    and changed: "dd @ ''/out/'' @ process_id example_processor @ ''/job_'' @ my_job_id example_processor
                    \<notin> dirs example_world \<longrightarrow> dirs ?w \<noteq> dirs example_world"
    by blast
  have "download_dir example_processor_after = Some dd"
    by (subst self) simp
  then have dd: "dd = ''/data''"
    by (simp add: example_processor_after_def)
  have path: "dd @ ''/out/'' @ process_id example_processor @ ''/job_'' @ my_job_id example_processor
                = ''/data/out/weighting-functions/job_42''"
    by (simp add: dd example_processor_def set_job_id_def init_def example_metadata_def)
  have fresh: "''/data/out/weighting-functions/job_42'' \<notin> dirs example_world"
    by (simp add: example_world_def)
  from created changed fresh show ?thesis
    unfolding path using ex by blast
qed

subsection \<open>The call of the container invoker\<close>

text \<open>
  C2. For a request with all three inputs present and not null, once the configuration
  is loaded and the directory created, \<open>execute\<close> calls the invoker once, and the
  argument list of the call is exactly the tif input, the gpkg input, the dbf input, the
  csv path and the rds path in the output directory, in that order.
\<close>

theorem C2_script_args:
  assumes prep: "execute_setup self0 w0 = (Inr (od, ou), self, w)"
      and tif: "data ''inputFile1_tif'' = Some tif" "tif \<noteq> JNull"
      and gpkg: "data ''inputFile2_gpkg'' = Some gpkg" "gpkg \<noteq> JNull"
      and dbf: "data ''inputFile3_dbf'' = Some dbf" "dbf \<noteq> JNull"
  shows "\<exists>c dd. download_dir self = Some dd
            \<and> od = dd @ ''/out/'' @ process_id self0 @ ''/job_'' @ my_job_id self0
            \<and> invocations (snd (snd (execute run self0 data outputs w0))) = invocations w0 @ [c]
            \<and> inv_script_args c =
                 [tif, gpkg, dbf,
                  JStr (od @ ''/weight_table-'' @ my_job_id self0 @ ''.csv''),
                  JStr (od @ ''/weight_table-'' @ my_job_id self0 @ ''.rds'')]"
proof -
  from execute_setup_Inr[OF prep] obtain de dd where
      self: "docker_executable self = Some de" "download_dir self = Some dd"
    and od: "od = dd @ ''/out/'' @ process_id self0 @ ''/job_'' @ my_job_id self0"
    by auto
  have job: "my_job_id self = my_job_id self0"
    using prep by (rule execute_setup_attrs)
  have same: "invocations w = invocations w0"
    using prep by (rule execute_setup_invocations)
  have t: "dict_get data ''inputFile1_tif'' = tif"
    and g: "dict_get data ''inputFile2_gpkg'' = gpkg"
    and d: "dict_get data ''inputFile3_dbf'' = dbf"
    using tif gpkg dbf by (simp_all add: dict_get_def)
  define call where "call = \<lparr> inv_docker_executable = de,
             inv_image_name = image_name self,
             inv_script_name = script_name self,
             inv_output_dir = od,
             inv_script_args =
               [dict_get data ''inputFile1_tif'', dict_get data ''inputFile2_gpkg'',
                dict_get data ''inputFile3_dbf'',
                JStr (od @ ''/weight_table-'' @ my_job_id self @ ''.csv''),
                JStr (od @ ''/weight_table-'' @ my_job_id self @ ''.rds'')] \<rparr>"
  have "snd (execute run self0 data outputs w0) = (self, w\<lparr>invocations := invocations w @ [call]\<rparr>)"
    using prep _ _ _ self(1) call_def
    by (rule execute_run(1)) (simp_all add: t g d tif gpkg dbf)
  then have "invocations (snd (snd (execute run self0 data outputs w0))) = invocations w0 @ [call]"
    by (simp add: same)
  moreover have "inv_script_args call =
                 [tif, gpkg, dbf,
                  JStr (od @ ''/weight_table-'' @ my_job_id self0 @ ''.csv''),
                  JStr (od @ ''/weight_table-'' @ my_job_id self0 @ ''.rds'')]"
    by (simp add: call_def t g d job)
  ultimately show ?thesis
    using self(2) od by blast
qed

theorem C2_script_args_witness:
  "(\<exists>c dd. download_dir example_processor_after = Some dd
        \<and> ''/data/out/weighting-functions/job_42''
             = dd @ ''/out/'' @ process_id example_processor @ ''/job_'' @ my_job_id example_processor
        \<and> invocations (snd (snd (execute (example_run 0 []) example_processor example_request JNull
                                     example_world))) = invocations example_world @ [c]
        \<and> inv_script_args c =
             [JStr ''a.tif'', JStr ''b.gpkg'', JStr ''c.dbf'',
              JStr (''/data/out/weighting-functions/job_42'' @ ''/weight_table-''
                      @ my_job_id example_processor @ ''.csv''),
              JStr (''/data/out/weighting-functions/job_42'' @ ''/weight_table-''
                      @ my_job_id example_processor @ ''.rds'')])
   \<and> inv_script_args (last (invocations (snd (snd (execute (example_run 0 []) example_processor
                                     example_request JNull example_world)))))
       = [JStr ''a.tif'', JStr ''b.gpkg'', JStr ''c.dbf'',
          JStr ''/data/out/weighting-functions/job_42/weight_table-42.csv'',
          JStr ''/data/out/weighting-functions/job_42/weight_table-42.rds'']"
proof -
  have prep: "execute_setup example_processor example_world =
     (Inr (''/data/out/weighting-functions/job_42'', ''https://x/files/out/weighting-functions/job_42''),
      example_processor_after, example_world\<lparr>dirs := {''/data/out/weighting-functions/job_42''}\<rparr>)"
    using example_setup by (simp add: example_processor_after_def)
  have t: "example_request ''inputFile1_tif'' = Some (JStr ''a.tif'')" "JStr ''a.tif'' \<noteq> JNull"
    and g: "example_request ''inputFile2_gpkg'' = Some (JStr ''b.gpkg'')" "JStr ''b.gpkg'' \<noteq> JNull"
    and d: "example_request ''inputFile3_dbf'' = Some (JStr ''c.dbf'')" "JStr ''c.dbf'' \<noteq> JNull"
    by (simp_all add: example_request_def)
  have general: "\<exists>c dd. download_dir example_processor_after = Some dd
        \<and> ''/data/out/weighting-functions/job_42''
             = dd @ ''/out/'' @ process_id example_processor @ ''/job_'' @ my_job_id example_processor
        \<and> invocations (snd (snd (execute (example_run 0 []) example_processor example_request JNull
                                     example_world))) = invocations example_world @ [c]
        \<and> inv_script_args c =
             [JStr ''a.tif'', JStr ''b.gpkg'', JStr ''c.dbf'',
              JStr (''/data/out/weighting-functions/job_42'' @ ''/weight_table-''
                      @ my_job_id example_processor @ ''.csv''),
              JStr (''/data/out/weighting-functions/job_42'' @ ''/weight_table-''
                      @ my_job_id example_processor @ ''.rds'')]"
    by (rule C2_script_args[OF prep t g d])
  then obtain c where
      "invocations (snd (snd (execute (example_run 0 []) example_processor example_request JNull
                                     example_world))) = invocations example_world @ [c]"
      "inv_script_args c =
             [JStr ''a.tif'', JStr ''b.gpkg'', JStr ''c.dbf'',
              JStr (''/data/out/weighting-functions/job_42'' @ ''/weight_table-''
                      @ my_job_id example_processor @ ''.csv''),
              JStr (''/data/out/weighting-functions/job_42'' @ ''/weight_table-''
                      @ my_job_id example_processor @ ''.rds'')]"
    by blast
  then have "inv_script_args (last (invocations (snd (snd (execute (example_run 0 []) example_processor
                                     example_request JNull example_world)))))
       = [JStr ''a.tif'', JStr ''b.gpkg'', JStr ''c.dbf'',
          JStr ''/data/out/weighting-functions/job_42/weight_table-42.csv'',
          JStr ''/data/out/weighting-functions/job_42/weight_table-42.rds'']"
    by (simp add: example_processor_def set_job_id_def)
  with general show ?thesis by blast
qed

subsection \<open>The result of the run\<close>

text \<open>
  C3. For a request with all three inputs present and not null, once the configuration
  is loaded and the directory created, if the invoker returns code 0 for the call that
  \<open>execute\<close> makes, and the process metadata describes both outputs, then \<open>execute\<close>
  returns the media type \<^verbatim>\<open>application/json\<close> and a response whose \<open>outputs\<close> are
  exactly the entries \<open>weight_table_csv\<close> and \<open>weight_table_rds\<close>, each with the title
  and description of the metadata and, as href, the download URL
  \<^verbatim>\<open>{download_url}/out/{process_id}/job_{job_id}/weight_table-{job_id}\<close> with the
  extension \<^verbatim>\<open>.csv\<close> or \<^verbatim>\<open>.rds\<close>.
\<close>

theorem C3_success_response:
  assumes prep: "execute_setup self0 w0 = (Inr (od, ou), self, w)"
      and tif: "data ''inputFile1_tif'' = Some tif" "tif \<noteq> JNull"
      and gpkg: "data ''inputFile2_gpkg'' = Some gpkg" "gpkg \<noteq> JNull"
      and dbf: "data ''inputFile3_dbf'' = Some dbf" "dbf \<noteq> JNull"
      and de: "docker_executable self = Some de"
      and rc: "fst (run \<lparr> inv_docker_executable = de,
                           inv_image_name = image_name self0,
                           inv_script_name = script_name self0,
                           inv_output_dir = od,
                           inv_script_args =
                             [tif, gpkg, dbf,
                              JStr (od @ ''/weight_table-'' @ my_job_id self0 @ ''.csv''),
                              JStr (od @ ''/weight_table-'' @ my_job_id self0 @ ''.rds'')] \<rparr>) = 0"
      and csv: "meta_outputs (metadata self0) ''weight_table_csv'' = Some m_csv"
      and rds: "meta_outputs (metadata self0) ''weight_table_rds'' = Some m_rds"
  shows "\<exists>du. download_url self = Some du
          \<and> fst (execute run self0 data outputs w0) =
              Inr (''application/json'',
                 JObj [(''outputs'',
                   JObj [(''weight_table_csv'',
                            JObj [(''title'', JStr (title m_csv)),
                                  (''description'', JStr (description m_csv)),
                                  (''href'', JStr (du @ ''/out/'' @ process_id self0 @ ''/job_''
                                      @ my_job_id self0 @ ''/weight_table-'' @ my_job_id self0 @ ''.csv''))]),
                         (''weight_table_rds'',
                            JObj [(''title'', JStr (title m_rds)),
                                  (''description'', JStr (description m_rds)),
                                  (''href'', JStr (du @ ''/out/'' @ process_id self0 @ ''/job_''
                                      @ my_job_id self0 @ ''/weight_table-'' @ my_job_id self0 @ ''.rds''))])])])"
proof -
  from execute_setup_urls[OF prep] obtain du where
      du: "download_url self = Some du"
    and ou: "ou = du @ ''/out/'' @ process_id self0 @ ''/job_'' @ my_job_id self0"
    by auto
  have attrs: "my_job_id self = my_job_id self0" "metadata self = metadata self0"
              "image_name self = image_name self0" "script_name self = script_name self0"
    using prep by (rule execute_setup_attrs)+
  have t: "dict_get data ''inputFile1_tif'' = tif"
    and g: "dict_get data ''inputFile2_gpkg'' = gpkg"
    and d: "dict_get data ''inputFile3_dbf'' = dbf"
    using tif gpkg dbf by (simp_all add: dict_get_def)
  define call where "call = \<lparr> inv_docker_executable = de,
             inv_image_name = image_name self,
             inv_script_name = script_name self,
             inv_output_dir = od,
             inv_script_args =
               [dict_get data ''inputFile1_tif'', dict_get data ''inputFile2_gpkg'',
                dict_get data ''inputFile3_dbf'',
                JStr (od @ ''/weight_table-'' @ my_job_id self @ ''.csv''),
                JStr (od @ ''/weight_table-'' @ my_job_id self @ ''.rds'')] \<rparr>"
  have zero: "fst (run call) = 0"
    using rc by (simp add: call_def attrs t g d)
  have "fst (execute run self0 data outputs w0) =
             (case meta_outputs (metadata self) ''weight_table_csv'' of
                None \<Rightarrow> Inl (KeyError ''weight_table_csv'')
              | Some m_csv \<Rightarrow>
                  (case meta_outputs (metadata self) ''weight_table_rds'' of
                     None \<Rightarrow> Inl (KeyError ''weight_table_rds'')
                   | Some m_rds \<Rightarrow>
                       Inr (''application/json'',
                            JObj [(''outputs'',
                              JObj [(''weight_table_csv'',
                                       output_entry m_csv (ou @ ''/weight_table-'' @ my_job_id self @ ''.csv'')),
                                    (''weight_table_rds'',
                                       output_entry m_rds (ou @ ''/weight_table-'' @ my_job_id self @ ''.rds''))])])))"
    using prep _ _ _ de call_def zero
    by (rule execute_run(3)) (simp_all add: t g d tif gpkg dbf)
  then have "fst (execute run self0 data outputs w0) =
              Inr (''application/json'',
                 JObj [(''outputs'',
                   JObj [(''weight_table_csv'',
                            JObj [(''title'', JStr (title m_csv)),
                                  (''description'', JStr (description m_csv)),
                                  (''href'', JStr (du @ ''/out/'' @ process_id self0 @ ''/job_''
                                      @ my_job_id self0 @ ''/weight_table-'' @ my_job_id self0 @ ''.csv''))]),
                         (''weight_table_rds'',
                            JObj [(''title'', JStr (title m_rds)),
                                  (''description'', JStr (description m_rds)),
                                  (''href'', JStr (du @ ''/out/'' @ process_id self0 @ ''/job_''
                                      @ my_job_id self0 @ ''/weight_table-'' @ my_job_id self0 @ ''.rds''))])])])"
    by (simp add: attrs csv rds output_entry_def ou)
  with du show ?thesis by blast
qed

theorem C3_success_response_witness:
  "fst (execute_setup example_processor example_world)
     = Inr (''/data/out/weighting-functions/job_42'', ''https://x/files/out/weighting-functions/job_42'')
   \<and> example_request ''inputFile1_tif'' = Some (JStr ''a.tif'')
   \<and> example_request ''inputFile2_gpkg'' = Some (JStr ''b.gpkg'')
   \<and> example_request ''inputFile3_dbf'' = Some (JStr ''c.dbf'')
   \<and> fst (execute (example_run 0 []) example_processor example_request JNull example_world)
       = Inr (''application/json'',
           JObj [(''outputs'',
             JObj [(''weight_table_csv'',
                      JObj [(''title'', JStr ''Weight table''),
                            (''description'', JStr ''Weights as csv''),
                            (''href'', JStr ''https://x/files/out/weighting-functions/job_42/weight_table-42.csv'')]),
                   (''weight_table_rds'',
                      JObj [(''title'', JStr ''Weight table (R)''),
                            (''description'', JStr ''Weights as rds''),
                            (''href'', JStr ''https://x/files/out/weighting-functions/job_42/weight_table-42.rds'')])])])"
proof -
  let ?self = "example_processor\<lparr>docker_executable := Some (JStr ''/usr/bin/docker''),
                          download_dir := Some ''/data'',
                          download_url := Some ''https://x/files''\<rparr>"
  have prep: "fst (execute_setup example_processor example_world)
     = Inr (''/data/out/weighting-functions/job_42'', ''https://x/files/out/weighting-functions/job_42'')"
    by (simp add: example_setup)
  have t: "example_request ''inputFile1_tif'' = Some (JStr ''a.tif'')" "JStr ''a.tif'' \<noteq> JNull"
    and g: "example_request ''inputFile2_gpkg'' = Some (JStr ''b.gpkg'')" "JStr ''b.gpkg'' \<noteq> JNull"
    and d: "example_request ''inputFile3_dbf'' = Some (JStr ''c.dbf'')" "JStr ''c.dbf'' \<noteq> JNull"
    by (simp_all add: example_request_def)
  have de: "docker_executable ?self = Some (JStr ''/usr/bin/docker'')"
    by simp
  have rc: "fst (example_run 0 [] c) = 0" for c
    by (simp add: example_run_def)
  have csv: "meta_outputs (metadata example_processor) ''weight_table_csv''
               = Some \<lparr> title = ''Weight table'', description = ''Weights as csv'' \<rparr>"
    and rds: "meta_outputs (metadata example_processor) ''weight_table_rds''
               = Some \<lparr> title = ''Weight table (R)'', description = ''Weights as rds'' \<rparr>"
    by (simp_all add: example_processor_def set_job_id_def init_def example_metadata_def)
  have ids: "process_id example_processor = ''weighting-functions''"
            "my_job_id example_processor = ''42''"
    by (simp_all add: example_processor_def set_job_id_def init_def example_metadata_def)
  from C3_success_response[where outputs = JNull, OF example_setup t g d de rc csv rds]
  have "fst (execute (example_run 0 []) example_processor example_request JNull example_world)
       = Inr (''application/json'',
           JObj [(''outputs'',
             JObj [(''weight_table_csv'',
                      JObj [(''title'', JStr ''Weight table''),
                            (''description'', JStr ''Weights as csv''),
                            (''href'', JStr ''https://x/files/out/weighting-functions/job_42/weight_table-42.csv'')]),
                   (''weight_table_rds'',
                      JObj [(''title'', JStr ''Weight table (R)''),
                            (''description'', JStr ''Weights as rds''),
                            (''href'', JStr ''https://x/files/out/weighting-functions/job_42/weight_table-42.rds'')])])])"
    by (simp add: ids)
  with prep t(1) g(1) d(1) show ?thesis
    by blast
qed



subsection \<open>Paths and links\<close>

text \<open>
  C5. For a request with all three inputs present and not null, once the configuration
  is loaded and the directory created, the output directory, the two file paths and the
  two links are given by fixed formulas in the stored download directory or download
  URL, the process id and the job id, and in nothing else: the directory exists after
  the execution, the one call of the invoker gets the directory and the two file paths,
  and when that call returns 0 and the metadata describes both outputs, the response
  carries the two links. With download directory \<^verbatim>\<open>/data\<close>, download URL
  \<^verbatim>\<open>https://x/files\<close> and job id 42 the output directory is
  \<^verbatim>\<open>/data/out/<process_id>/job_42\<close> and the csv link is
  \<^verbatim>\<open>https://x/files/out/<process_id>/job_42/weight_table-42.csv\<close>.
\<close>

theorem C5_paths_determined:
  assumes prep: "execute_setup self0 w0 = (Inr (od, ou), self, w)"
      and tif: "data ''inputFile1_tif'' = Some tif" "tif \<noteq> JNull"
      and gpkg: "data ''inputFile2_gpkg'' = Some gpkg" "gpkg \<noteq> JNull"
      and dbf: "data ''inputFile3_dbf'' = Some dbf" "dbf \<noteq> JNull"
  shows "\<exists>dd du c.
            download_dir self = Some dd \<and> download_url self = Some du
          \<and> od = dd @ ''/out/'' @ process_id self0 @ ''/job_'' @ my_job_id self0
          \<and> ou = du @ ''/out/'' @ process_id self0 @ ''/job_'' @ my_job_id self0
          \<and> od \<in> dirs (snd (snd (execute run self0 data outputs w0)))
          \<and> invocations (snd (snd (execute run self0 data outputs w0))) = invocations w0 @ [c]
          \<and> inv_output_dir c = od
          \<and> drop 3 (inv_script_args c) =
                [JStr (dd @ ''/out/'' @ process_id self0 @ ''/job_'' @ my_job_id self0
                          @ ''/weight_table-'' @ my_job_id self0 @ ''.csv''),
                 JStr (dd @ ''/out/'' @ process_id self0 @ ''/job_'' @ my_job_id self0
                          @ ''/weight_table-'' @ my_job_id self0 @ ''.rds'')]
          \<and> (fst (run c) = 0
                \<and> meta_outputs (metadata self0) ''weight_table_csv'' \<noteq> None
                \<and> meta_outputs (metadata self0) ''weight_table_rds'' \<noteq> None \<longrightarrow>
                (\<exists>response.
                    fst (execute run self0 data outputs w0) = Inr (''application/json'', response)
                  \<and> response_href response ''weight_table_csv'' =
                      Some (JStr (du @ ''/out/'' @ process_id self0 @ ''/job_'' @ my_job_id self0
                                    @ ''/weight_table-'' @ my_job_id self0 @ ''.csv''))
                  \<and> response_href response ''weight_table_rds'' =
                      Some (JStr (du @ ''/out/'' @ process_id self0 @ ''/job_'' @ my_job_id self0
                                    @ ''/weight_table-'' @ my_job_id self0 @ ''.rds''))))
          \<and> (dd = ''/data'' \<and> du = ''https://x/files'' \<and> my_job_id self0 = ''42'' \<longrightarrow>
                od = ''/data/out/'' @ process_id self0 @ ''/job_42''
              \<and> (fst (run c) = 0
                    \<and> meta_outputs (metadata self0) ''weight_table_csv'' \<noteq> None
                    \<and> meta_outputs (metadata self0) ''weight_table_rds'' \<noteq> None \<longrightarrow>
                    (\<exists>response.
                        fst (execute run self0 data outputs w0) = Inr (''application/json'', response)
                      \<and> response_href response ''weight_table_csv'' =
                          Some (JStr (''https://x/files/out/'' @ process_id self0
                                        @ ''/job_42/weight_table-42.csv'')))))"
proof -
  from execute_setup_Inr[OF prep] obtain de dd du where
      de: "docker_executable self = Some de"
    and dd: "download_dir self = Some dd" and du: "download_url self = Some du"
    and od: "od = dd @ ''/out/'' @ process_id self0 @ ''/job_'' @ my_job_id self0"
    and ou: "ou = du @ ''/out/'' @ process_id self0 @ ''/job_'' @ my_job_id self0"
    and w: "w = w0\<lparr>dirs := insert od (dirs w0)\<rparr>"
    by auto
  have attrs: "my_job_id self = my_job_id self0" "metadata self = metadata self0"
    using prep by (rule execute_setup_attrs)+
  have present: "dict_get data ''inputFile1_tif'' \<noteq> JNull"
                "dict_get data ''inputFile2_gpkg'' \<noteq> JNull"
                "dict_get data ''inputFile3_dbf'' \<noteq> JNull"
    using tif gpkg dbf by (simp_all add: dict_get_def)
  define c where "c = \<lparr> inv_docker_executable = de,
             inv_image_name = image_name self,
             inv_script_name = script_name self,
             inv_output_dir = od,
             inv_script_args =
               [dict_get data ''inputFile1_tif'', dict_get data ''inputFile2_gpkg'',
                dict_get data ''inputFile3_dbf'',
                JStr (od @ ''/weight_table-'' @ my_job_id self @ ''.csv''),
                JStr (od @ ''/weight_table-'' @ my_job_id self @ ''.rds'')] \<rparr>"
  note run = execute_run[OF prep present de c_def, of run outputs]
  have after: "snd (snd (execute run self0 data outputs w0)) = w\<lparr>invocations := invocations w @ [c]\<rparr>"
    using run(1) by simp
  have made: "od \<in> dirs (snd (snd (execute run self0 data outputs w0)))"
    by (simp add: after w)
  have calls: "invocations (snd (snd (execute run self0 data outputs w0))) = invocations w0 @ [c]"
    by (simp add: after w)
  have dir: "inv_output_dir c = od"
    by (simp add: c_def)
  have args: "drop 3 (inv_script_args c) =
                [JStr (dd @ ''/out/'' @ process_id self0 @ ''/job_'' @ my_job_id self0
                          @ ''/weight_table-'' @ my_job_id self0 @ ''.csv''),
                 JStr (dd @ ''/out/'' @ process_id self0 @ ''/job_'' @ my_job_id self0
                          @ ''/weight_table-'' @ my_job_id self0 @ ''.rds'')]"
    by (simp add: c_def od attrs)
  have links: "\<exists>response.
                    fst (execute run self0 data outputs w0) = Inr (''application/json'', response)
                  \<and> response_href response ''weight_table_csv'' =
                      Some (JStr (du @ ''/out/'' @ process_id self0 @ ''/job_'' @ my_job_id self0
                                    @ ''/weight_table-'' @ my_job_id self0 @ ''.csv''))
                  \<and> response_href response ''weight_table_rds'' =
                      Some (JStr (du @ ''/out/'' @ process_id self0 @ ''/job_'' @ my_job_id self0
                                    @ ''/weight_table-'' @ my_job_id self0 @ ''.rds''))"
    if ok: "fst (run c) = 0
                \<and> meta_outputs (metadata self0) ''weight_table_csv'' \<noteq> None
                \<and> meta_outputs (metadata self0) ''weight_table_rds'' \<noteq> None"
  proof -
    from ok have zero: "fst (run c) = 0"
      and "meta_outputs (metadata self) ''weight_table_csv'' \<noteq> None"
      and "meta_outputs (metadata self) ''weight_table_rds'' \<noteq> None"
      by (simp_all add: attrs)
    then obtain m_csv m_rds where
        m: "meta_outputs (metadata self) ''weight_table_csv'' = Some m_csv"
           "meta_outputs (metadata self) ''weight_table_rds'' = Some m_rds"
      by (cases "meta_outputs (metadata self) ''weight_table_csv''";
          cases "meta_outputs (metadata self) ''weight_table_rds''") simp_all
    define response where
      "response = JObj [(''outputs'',
                JObj [(''weight_table_csv'',
                         output_entry m_csv (ou @ ''/weight_table-'' @ my_job_id self @ ''.csv'')),
                      (''weight_table_rds'',
                         output_entry m_rds (ou @ ''/weight_table-'' @ my_job_id self @ ''.rds''))])]"
    from run(3)[OF zero] have r1:
      "fst (execute run self0 data outputs w0) = Inr (''application/json'', response)"
      by (simp add: m response_def)
    have r2: "response_href response ''weight_table_csv'' =
                Some (JStr (du @ ''/out/'' @ process_id self0 @ ''/job_'' @ my_job_id self0
                                    @ ''/weight_table-'' @ my_job_id self0 @ ''.csv''))"
      unfolding response_def response_href_entries by (simp add: ou attrs)
    have r3: "response_href response ''weight_table_rds'' =
                Some (JStr (du @ ''/out/'' @ process_id self0 @ ''/job_'' @ my_job_id self0
                                    @ ''/weight_table-'' @ my_job_id self0 @ ''.rds''))"
      unfolding response_def response_href_entries by (simp add: ou attrs)
    show ?thesis
      by (rule exI[of _ response]) (intro conjI r1 r2 r3)
  qed
  have scen: "od = ''/data/out/'' @ process_id self0 @ ''/job_42''
              \<and> (fst (run c) = 0
                    \<and> meta_outputs (metadata self0) ''weight_table_csv'' \<noteq> None
                    \<and> meta_outputs (metadata self0) ''weight_table_rds'' \<noteq> None \<longrightarrow>
                    (\<exists>response.
                        fst (execute run self0 data outputs w0) = Inr (''application/json'', response)
                      \<and> response_href response ''weight_table_csv'' =
                          Some (JStr (''https://x/files/out/'' @ process_id self0
                                        @ ''/job_42/weight_table-42.csv''))))"
    if s: "dd = ''/data'' \<and> du = ''https://x/files'' \<and> my_job_id self0 = ''42''"
  proof (intro conjI impI)
    show "od = ''/data/out/'' @ process_id self0 @ ''/job_42''"
      using s by (simp add: od)
    assume "fst (run c) = 0
              \<and> meta_outputs (metadata self0) ''weight_table_csv'' \<noteq> None
              \<and> meta_outputs (metadata self0) ''weight_table_rds'' \<noteq> None"
    from links[OF this] obtain response where
        r1: "fst (execute run self0 data outputs w0) = Inr (''application/json'', response)"
      and r2: "response_href response ''weight_table_csv'' =
                      Some (JStr (du @ ''/out/'' @ process_id self0 @ ''/job_'' @ my_job_id self0
                                    @ ''/weight_table-'' @ my_job_id self0 @ ''.csv''))"
      by (elim exE conjE) (rule that)
    from r2 s have r2': "response_href response ''weight_table_csv'' =
                          Some (JStr (''https://x/files/out/'' @ process_id self0
                                        @ ''/job_42/weight_table-42.csv''))"
      by simp
    show "\<exists>response.
                        fst (execute run self0 data outputs w0) = Inr (''application/json'', response)
                      \<and> response_href response ''weight_table_csv'' =
                          Some (JStr (''https://x/files/out/'' @ process_id self0
                                        @ ''/job_42/weight_table-42.csv''))"
      by (rule exI[of _ response]) (intro conjI r1 r2')
  qed
  show ?thesis
    apply (rule exI[of _ dd], rule exI[of _ du], rule exI[of _ c])
    apply (intro conjI)
    apply (rule dd, rule du, rule od, rule ou, rule made, rule calls, rule dir, rule args)
    apply (rule impI, erule links)
    apply (rule impI, erule scen)
    done
qed

theorem C5_paths_determined_witness:
  "fst (execute_setup example_processor example_world)
     = Inr (''/data/out/weighting-functions/job_42'', ''https://x/files/out/weighting-functions/job_42'')
   \<and> download_dir (fst (snd (execute_setup example_processor example_world))) = Some ''/data''
   \<and> download_url (fst (snd (execute_setup example_processor example_world))) = Some ''https://x/files''
   \<and> my_job_id example_processor = ''42''
   \<and> ''/data/out/weighting-functions/job_42''
        \<in> dirs (snd (snd (execute (example_run 0 []) example_processor example_request JNull example_world)))
   \<and> (\<exists>c. invocations (snd (snd (execute (example_run 0 []) example_processor example_request JNull
                                      example_world))) = invocations example_world @ [c]
          \<and> inv_output_dir c = ''/data/out/weighting-functions/job_42'')
   \<and> (\<exists>response.
          fst (execute (example_run 0 []) example_processor example_request JNull example_world)
            = Inr (''application/json'', response)
        \<and> response_href response ''weight_table_csv''
            = Some (JStr ''https://x/files/out/weighting-functions/job_42/weight_table-42.csv''))"
proof -
  let ?self = "example_processor\<lparr>docker_executable := Some (JStr ''/usr/bin/docker''),
                          download_dir := Some ''/data'',
                          download_url := Some ''https://x/files''\<rparr>"
  let ?od = "''/data/out/weighting-functions/job_42''"
  let ?ex = "execute (example_run 0 []) example_processor example_request JNull example_world"
  have prep: "fst (execute_setup example_processor example_world)
     = Inr (?od, ''https://x/files/out/weighting-functions/job_42'')"
    and stored: "download_dir (fst (snd (execute_setup example_processor example_world))) = Some ''/data''"
                "download_url (fst (snd (execute_setup example_processor example_world))) = Some ''https://x/files''"
    by (simp_all add: example_setup)
  have t: "example_request ''inputFile1_tif'' = Some (JStr ''a.tif'')" "JStr ''a.tif'' \<noteq> JNull"
    and g: "example_request ''inputFile2_gpkg'' = Some (JStr ''b.gpkg'')" "JStr ''b.gpkg'' \<noteq> JNull"
    and d: "example_request ''inputFile3_dbf'' = Some (JStr ''c.dbf'')" "JStr ''c.dbf'' \<noteq> JNull"
    by (simp_all add: example_request_def)
  have ids: "process_id example_processor = ''weighting-functions''"
            "my_job_id example_processor = ''42''"
    by (simp_all add: example_processor_def set_job_id_def init_def example_metadata_def)
  have meta: "meta_outputs (metadata example_processor) ''weight_table_csv'' \<noteq> None"
             "meta_outputs (metadata example_processor) ''weight_table_rds'' \<noteq> None"
    by (simp_all add: example_processor_def set_job_id_def init_def example_metadata_def)
  from C5_paths_determined[where run = "example_run 0 []" and outputs = JNull, OF example_setup t g d]
  obtain dd du c where
      dd: "download_dir ?self = Some dd" and du: "download_url ?self = Some du"
    and made: "?od \<in> dirs (snd (snd ?ex))"
    and calls: "invocations (snd (snd ?ex)) = invocations example_world @ [c]"
    and dir: "inv_output_dir c = ?od"
    and scen: "dd = ''/data'' \<and> du = ''https://x/files'' \<and> my_job_id example_processor = ''42'' \<longrightarrow>
                ?od = ''/data/out/'' @ process_id example_processor @ ''/job_42''
              \<and> (fst (example_run 0 [] c) = 0
                    \<and> meta_outputs (metadata example_processor) ''weight_table_csv'' \<noteq> None
                    \<and> meta_outputs (metadata example_processor) ''weight_table_rds'' \<noteq> None \<longrightarrow>
                    (\<exists>response.
                        fst ?ex = Inr (''application/json'', response)
                      \<and> response_href response ''weight_table_csv'' =
                          Some (JStr (''https://x/files/out/'' @ process_id example_processor
                                        @ ''/job_42/weight_table-42.csv''))))"
    by (elim exE conjE) (rule that)
  have vals: "dd = ''/data''" "du = ''https://x/files''"
    using dd du by simp_all
  have rc: "fst (example_run 0 [] c) = 0"
    by (simp add: example_run_def)
  have pre: "dd = ''/data'' \<and> du = ''https://x/files'' \<and> my_job_id example_processor = ''42''"
    by (intro conjI vals ids(2))
  have ok: "fst (example_run 0 [] c) = 0
              \<and> meta_outputs (metadata example_processor) ''weight_table_csv'' \<noteq> None
              \<and> meta_outputs (metadata example_processor) ''weight_table_rds'' \<noteq> None"
    by (intro conjI rc meta)
  have "\<exists>response.
          fst ?ex = Inr (''application/json'', response)
        \<and> response_href response ''weight_table_csv'' =
            Some (JStr (''https://x/files/out/'' @ process_id example_processor
                          @ ''/job_42/weight_table-42.csv''))"
    by (rule mp[OF conjunct2[OF mp[OF scen pre]] ok])
  then have link: "\<exists>response.
          fst ?ex = Inr (''application/json'', response)
        \<and> response_href response ''weight_table_csv''
            = Some (JStr ''https://x/files/out/weighting-functions/job_42/weight_table-42.csv'')"
    by (simp add: ids)
  have call: "\<exists>c. invocations (snd (snd ?ex)) = invocations example_world @ [c]
          \<and> inv_output_dir c = ?od"
    by (rule exI[of _ c]) (intro conjI calls dir)
  show ?thesis
    by (intro conjI prep stored ids(2) made call link)
qed

subsection \<open>The configuration\<close>

text \<open>
  C8. When the configuration file holds a docker executable and strings for the download
  directory and the download URL, the values that \<open>execute\<close> stores in the object are
  these strings without their trailing slashes, however many there are: the stored
  strings do not end in a slash and differ from the configured ones by slashes at the
  end only, and a directory that the execution creates is built from the stored one.
\<close>

theorem C8_trailing_slashes_stripped:
  assumes ex: "execute run self0 data outputs w0 = (r, self, w)"
      and cfg: "json_files w0 (config_file_path w0) = Some (Some cfg)"
      and de: "subscript cfg ''docker_executable'' = Inr de"
      and sdir: "subscript cfg ''download_dir'' = Inr (JStr sdir)"
      and surl: "subscript cfg ''download_url'' = Inr (JStr surl)"
  shows "\<exists>dd du. download_dir self = Some dd \<and> download_url self = Some du
          \<and> (dd = [] \<or> last dd \<noteq> CHR ''/'')
          \<and> (du = [] \<or> last du \<noteq> CHR ''/'')
          \<and> (\<exists>n. sdir = dd @ replicate n (CHR ''/''))
          \<and> (\<exists>n. surl = du @ replicate n (CHR ''/''))
          \<and> (\<forall>p \<in> dirs w - dirs w0.
                p = dd @ ''/out/'' @ process_id self0 @ ''/job_'' @ my_job_id self0)"
proof -
  have "self = self0\<lparr>docker_executable := Some de,
                  download_dir := Some (rstrip sdir ''/''),
                  download_url := Some (rstrip surl ''/'')\<rparr>"
    using execute_self_dirs(1)[OF ex] execute_setup_config[OF cfg de sdir surl] by simp
  then have dd: "download_dir self = Some (rstrip sdir ''/'')"
    and du: "download_url self = Some (rstrip surl ''/'')"
    by simp_all
  have e1: "rstrip sdir ''/'' = [] \<or> last (rstrip sdir ''/'') \<noteq> CHR ''/''"
    using rstrip_no_trailing[of sdir "''/''"] by simp
  have e2: "rstrip surl ''/'' = [] \<or> last (rstrip surl ''/'') \<noteq> CHR ''/''"
    using rstrip_no_trailing[of surl "''/''"] by simp
  have new: "\<forall>p \<in> dirs w - dirs w0.
                p = rstrip sdir ''/'' @ ''/out/'' @ process_id self0 @ ''/job_'' @ my_job_id self0"
    using execute_self_dirs(2)[OF ex] dd by auto
  show ?thesis
    using dd du e1 e2 rstrip_slashes[of sdir] rstrip_slashes[of surl] new by blast
qed

theorem C8_trailing_slashes_stripped_witness:
  "json_files example_world (config_file_path example_world) = Some (Some example_config)
   \<and> subscript example_config ''docker_executable'' = Inr (JStr ''/usr/bin/docker'')
   \<and> subscript example_config ''download_dir'' = Inr (JStr ''/data/'')
   \<and> subscript example_config ''download_url'' = Inr (JStr ''https://x/files/'')
   \<and> download_dir example_processor_after = Some ''/data''
   \<and> download_url example_processor_after = Some ''https://x/files''
   \<and> last ''/data'' \<noteq> CHR ''/''
   \<and> last ''https://x/files'' \<noteq> CHR ''/''
   \<and> (\<exists>n. ''/data/'' = ''/data'' @ replicate n (CHR ''/''))"
proof -
  have cfg: "json_files example_world (config_file_path example_world) = Some (Some example_config)"
    by (simp add: example_world_def config_file_path_def)
  have de: "subscript example_config ''docker_executable'' = Inr (JStr ''/usr/bin/docker'')"
    and sdir: "subscript example_config ''download_dir'' = Inr (JStr ''/data/'')"
    and surl: "subscript example_config ''download_url'' = Inr (JStr ''https://x/files/'')"
    by (simp_all add: example_config_def)
  have stored: "download_dir example_processor_after = Some ''/data''"
               "download_url example_processor_after = Some ''https://x/files''"
    by (simp_all add: example_processor_after_def)
  from C8_trailing_slashes_stripped[OF example_execute_ok[of "[]" JNull] cfg de sdir surl]
  obtain dd du where
      "download_dir example_processor_after = Some dd"
      "download_url example_processor_after = Some du"
      "dd = [] \<or> last dd \<noteq> CHR ''/''"
      "du = [] \<or> last du \<noteq> CHR ''/''"
      "\<exists>n. ''/data/'' = dd @ replicate n (CHR ''/'')"
    by blast
  with stored have "last ''/data'' \<noteq> CHR ''/''" "last ''https://x/files'' \<noteq> CHR ''/''"
      "\<exists>n. ''/data/'' = ''/data'' @ replicate n (CHR ''/'')"
    by auto
  with cfg de sdir surl stored show ?thesis
    by blast
qed

subsection \<open>The outputs parameter\<close>

text \<open>
  C7. The \<open>outputs\<close> parameter has no influence: for any two values of it \<open>execute\<close>
  gives the same result, the same object and the same world; and whenever \<open>execute\<close>
  returns a response, the response has both outputs, \<open>weight_table_csv\<close> and
  \<open>weight_table_rds\<close>.
\<close>

theorem C7_outputs_parameter_ignored:
  "execute run self0 data outputs1 w0 = execute run self0 data outputs2 w0
   \<and> (\<forall>media_type response self w.
         execute run self0 data outputs1 w0 = (Inr (media_type, response), self, w) \<longrightarrow>
           output_names response = Some [''weight_table_csv'', ''weight_table_rds''])"
proof
  show "execute run self0 data outputs1 w0 = execute run self0 data outputs2 w0"
    by (simp add: execute_def)
  show "\<forall>media_type response self w.
         execute run self0 data outputs1 w0 = (Inr (media_type, response), self, w) \<longrightarrow>
           output_names response = Some [''weight_table_csv'', ''weight_table_rds'']"
  proof (intro allI impI)
    fix media_type response self w
    assume ex: "execute run self0 data outputs1 w0 = (Inr (media_type, response), self, w)"
    show "output_names response = Some [''weight_table_csv'', ''weight_table_rds'']"
    proof (cases rule: execute_cases[of self0 w0 run data outputs1])
      case (config e self' w')
      with ex show ?thesis by simp
    next
      case (missing od ou self' w' k)
      with ex show ?thesis by simp
    next
      case (ran od ou self' w' de)
      define call where "call = \<lparr> inv_docker_executable = de,
             inv_image_name = image_name self',
             inv_script_name = script_name self',
             inv_output_dir = od,
             inv_script_args =
               [dict_get data ''inputFile1_tif'', dict_get data ''inputFile2_gpkg'',
                dict_get data ''inputFile3_dbf'',
                JStr (od @ ''/weight_table-'' @ my_job_id self' @ ''.csv''),
                JStr (od @ ''/weight_table-'' @ my_job_id self' @ ''.rds'')] \<rparr>"
      note run = execute_run[OF ran call_def, of run outputs1]
      show ?thesis
      proof (cases "fst (run call) = 0")
        case True
        with run(3) ex show ?thesis
          by (auto simp: output_names_def split: option.splits)
      next
        case False
        with run(2) ex show ?thesis by simp
      qed
    qed
  qed
qed

theorem C7_outputs_parameter_ignored_witness:
  "execute (example_run 0 []) example_processor example_request JNull example_world
     = execute (example_run 0 []) example_processor example_request
         (JArr [JStr ''weight_table_csv'']) example_world
   \<and> fst (execute (example_run 0 []) example_processor example_request
         (JArr [JStr ''weight_table_csv'']) example_world)
       = Inr (''application/json'', example_response)
   \<and> output_names example_response = Some [''weight_table_csv'', ''weight_table_rds'']"
proof -
  note c7 = C7_outputs_parameter_ignored[of "example_run 0 []" example_processor example_request
              "JArr [JStr ''weight_table_csv'']" example_world JNull]
  have same: "execute (example_run 0 []) example_processor example_request JNull example_world
     = execute (example_run 0 []) example_processor example_request
         (JArr [JStr ''weight_table_csv'']) example_world"
    using c7 by simp
  have names: "output_names example_response = Some [''weight_table_csv'', ''weight_table_rds'']"
    using c7[THEN conjunct2, rule_format, OF example_execute_ok] .
  show ?thesis
    using same names by (simp add: example_execute_ok)
qed

subsection \<open>The job identity\<close>

text \<open>
  C6, as the specification states it, asks that a second call of \<^verbatim>\<open>set_job_id\<close> cannot
  change the stored job identity. The setter has no such guard: a second call, with
  another identity, replaces the first.
\<close>

theorem C6_job_id_overwritten_counterexample:
  "my_job_id (set_job_id (set_job_id (init example_metadata) ''42'') ''43'')
     \<noteq> my_job_id (set_job_id (init example_metadata) ''42'')"
  by (simp add: set_job_id_def)

text \<open>
  C6, amended. After construction the job identity is the placeholder \<^verbatim>\<open>nothing-yet\<close>;
  \<^verbatim>\<open>set_job_id\<close> stores its argument whatever was stored before, so after two calls
  the identity is that of the second.
\<close>

theorem C6_job_id_overwritten:
  "my_job_id (init PROCESS_METADATA) = ''nothing-yet''
   \<and> my_job_id (set_job_id self job_id) = job_id
   \<and> my_job_id (set_job_id (set_job_id self job_id1) job_id2) = job_id2"
  by (simp add: init_def set_job_id_def)

end
